theory Spec2Isabelle
  imports Main "HOL-Library.Sublist" "HOL-Library.AList"
begin

section \<open>The autotex log annotator of \<^verbatim>\<open>submit/filters/tex_filters.py\<close>\<close>

text \<open>
  The development embeds \<^verbatim>\<open>compilation_log_display\<close> and proves properties of it.
  A Python \<^verbatim>\<open>str\<close> is modelled as a \<^typ>\<open>string\<close>, each \<^typ>\<open>char\<close> read as one code
  point in the range 0..255; inputs with code points beyond that range are outside the
  model. Every \<^verbatim>\<open>raise\<close> of the source (\<^verbatim>\<open>list.index\<close> on a missing element, a
  dictionary read at a missing key) is the \<open>Inl\<close> branch of a sum.
\<close>

datatype error = ValueError | KeyError

abbreviation TAB :: char where "TAB \<equiv> CHR 0x09"
abbreviation NL :: char where "NL \<equiv> CHR 0x0A"
abbreviation DQ :: char where "DQ \<equiv> CHR 0x22"
abbreviation SQ :: char where "SQ \<equiv> CHR 0x27"
abbreviation BSL :: char where "BSL \<equiv> CHR 0x5C"

subsection \<open>The fragment of Python's \<^verbatim>\<open>re\<close> that the source uses\<close>

text \<open>
  The patterns of the source are built from literal text, \<^verbatim>\<open>.\<close>, \<^verbatim>\<open>\s\<close>, the greedy
  repetitions \<^verbatim>\<open>.*\<close> and \<^verbatim>\<open>\~+\<close> of a single character class, capture groups and one
  alternation. \<open>Str\<close> is a run of literal characters.
\<close>

datatype cls = Lit char | Dot | Space

datatype rx =
    Str string
  | Atom cls
  | Star cls
  | Plus cls
  | Seq rx rx
  | Alt rx rx
  | Group nat rx

type_synonym caps = "(nat \<times> string) list"

text \<open>ASCII case folding; the literals of every pattern are ASCII.\<close>

definition lower :: "char \<Rightarrow> char" where
  "lower c = (let n = (of_char c :: nat) in if 65 \<le> n \<and> n \<le> 90 then char_of (n + 32) else c)"

text \<open>\<^verbatim>\<open>\s\<close> on a \<^verbatim>\<open>str\<close> pattern: the code points below 256 for which
  \<^verbatim>\<open>str.isspace\<close> holds.\<close>

definition is_space :: "char \<Rightarrow> bool" where
  "is_space c = (let n = (of_char c :: nat) in
     (9 \<le> n \<and> n \<le> 13) \<or> (28 \<le> n \<and> n \<le> 32) \<or> n = 133 \<or> n = 160)"

fun cmatch :: "bool \<Rightarrow> cls \<Rightarrow> char \<Rightarrow> bool" where
  "cmatch ic (Lit c) x = (x = c \<or> (ic \<and> lower x = lower c))"
| "cmatch ic Dot x = (x \<noteq> NL)"
| "cmatch ic Space x = is_space x"

fun str_match :: "bool \<Rightarrow> string \<Rightarrow> string \<Rightarrow> string option" where
  "str_match ic [] s = Some s"
| "str_match ic (c # cs) [] = None"
| "str_match ic (c # cs) (x # xs) = (if cmatch ic (Lit c) x then str_match ic cs xs else None)"

text \<open>
  \<open>ms ic r s\<close> lists, in the priority order of a backtracking matcher (greedy
  repetition, left alternative first), every way \<open>r\<close> matches a prefix of \<open>s\<close>: the
  unread rest of \<open>s\<close> and the text captured by each group. \<open>ic\<close> is \<^verbatim>\<open>re.IGNORECASE\<close>.
\<close>

fun ms :: "bool \<Rightarrow> rx \<Rightarrow> string \<Rightarrow> (string \<times> caps) list" where
  "ms ic (Str p) s = (case str_match ic p s of None \<Rightarrow> [] | Some s' \<Rightarrow> [(s', [])])"
| "ms ic (Atom a) [] = []"
| "ms ic (Atom a) (x # xs) = (if cmatch ic a x then [(xs, [])] else [])"
| "ms ic (Star a) [] = [([], [])]"
| "ms ic (Star a) (x # xs) =
     (if cmatch ic a x then ms ic (Star a) xs else []) @ [(x # xs, [])]"
| "ms ic (Plus a) [] = []"
| "ms ic (Plus a) (x # xs) = (if cmatch ic a x then ms ic (Star a) xs else [])"
| "ms ic (Seq r1 r2) s =
     concat (map (\<lambda>(s1, c1). map (\<lambda>(s2, c2). (s2, c1 @ c2)) (ms ic r2 s1)) (ms ic r1 s))"
| "ms ic (Alt r1 r2) s = ms ic r1 s @ ms ic r2 s"
| "ms ic (Group n r) s =
     map (\<lambda>(s', c). (s', (n, take (length s - length s') s) # c)) (ms ic r s)"

text \<open>\<^verbatim>\<open>re.search\<close>: the first start position with a match, and the matcher's first
  choice there. The result is the text before the match, the match, the text after
  it, and the captures.\<close>

fun search :: "bool \<Rightarrow> rx \<Rightarrow> string \<Rightarrow> (string \<times> string \<times> string \<times> caps) option" where
  "search ic r [] =
     (case ms ic r [] of [] \<Rightarrow> None | (s', c) # _ \<Rightarrow> Some ([], [], [], c))"
| "search ic r (x # xs) =
     (case ms ic r (x # xs) of
        (s', c) # _ \<Rightarrow> Some ([], take (length (x # xs) - length s') (x # xs), s', c)
      | [] \<Rightarrow> (case search ic r xs of None \<Rightarrow> None
               | Some (b, m, a, c) \<Rightarrow> Some (x # b, m, a, c)))"

definition matches :: "bool \<Rightarrow> rx \<Rightarrow> string \<Rightarrow> bool" where
  "matches ic r s = (search ic r s \<noteq> None)"

text \<open>\<^verbatim>\<open>m.group(n)\<close>; a group that did not take part reads as the empty string in
  \<^verbatim>\<open>findall\<close>.\<close>

definition group :: "caps \<Rightarrow> nat \<Rightarrow> string" where
  "group c n = (case map_of c n of None \<Rightarrow> [] | Some t \<Rightarrow> t)"

text \<open>\<^verbatim>\<open>findall\<close> and \<^verbatim>\<open>re.sub\<close> scan from left to right over non-overlapping
  matches. \<open>skip\<close> counts the characters of the last match still to be passed.\<close>

fun findall_from :: "bool \<Rightarrow> rx \<Rightarrow> nat \<Rightarrow> string \<Rightarrow> caps list" where
  "findall_from ic r skip [] =
     (if skip = 0 then (case ms ic r [] of [] \<Rightarrow> [] | (s', c) # _ \<Rightarrow> [c]) else [])"
| "findall_from ic r skip (x # xs) =
     (if skip > 0 then findall_from ic r (skip - 1) xs
      else (case ms ic r (x # xs) of
              [] \<Rightarrow> findall_from ic r 0 xs
            | (s', c) # _ \<Rightarrow> c # findall_from ic r (length xs - length s') xs))"

definition findall :: "bool \<Rightarrow> rx \<Rightarrow> string \<Rightarrow> caps list" where
  "findall ic r s = findall_from ic r 0 s"

fun sub_from :: "bool \<Rightarrow> rx \<Rightarrow> (string \<Rightarrow> string) \<Rightarrow> nat \<Rightarrow> string \<Rightarrow> string" where
  "sub_from ic r repl skip [] =
     (if skip = 0 \<and> ms ic r [] \<noteq> [] then repl [] else [])"
| "sub_from ic r repl skip (x # xs) =
     (if skip > 0 then sub_from ic r repl (skip - 1) xs
      else (case ms ic r (x # xs) of
              [] \<Rightarrow> x # sub_from ic r repl 0 xs
            | (s', c) # _ \<Rightarrow>
                (let n = length (x # xs) - length s' in
                 if n = 0 then repl [] @ x # sub_from ic r repl 0 xs
                 else repl (take n (x # xs)) @ sub_from ic r repl (n - 1) xs)))"

text \<open>\<^verbatim>\<open>re.sub(regex, repl, line)\<close> where \<open>repl\<close> maps the text of group 1, here the
  whole match, to its replacement.\<close>

definition sub :: "bool \<Rightarrow> rx \<Rightarrow> (string \<Rightarrow> string) \<Rightarrow> string \<Rightarrow> string" where
  "sub ic r repl s = sub_from ic r repl 0 s"

fun seqs :: "rx list \<Rightarrow> rx" where
  "seqs [] = Str []"
| "seqs [r] = r"
| "seqs (r # rs) = Seq r (seqs rs)"

subsection \<open>\<^verbatim>\<open>html.escape\<close>, \<^verbatim>\<open>str.splitlines\<close>, \<^verbatim>\<open>str(int)\<close>\<close>

fun escape_char :: "char \<Rightarrow> string" where
  "escape_char c =
     (if c = CHR ''&'' then ''&amp;''
      else if c = CHR ''<'' then ''&lt;''
      else if c = CHR ''>'' then ''&gt;''
      else if c = DQ then ''&quot;''
      else if c = SQ then ''&#x27;''
      else [c])"

definition html_escape :: "string \<Rightarrow> string" where
  "html_escape s = concat (map escape_char s)"

text \<open>The line boundaries of \<^verbatim>\<open>str.splitlines\<close> below code point 256; \<^verbatim>\<open>\r\n\<close> is one
  boundary.\<close>

definition is_linebreak :: "char \<Rightarrow> bool" where
  "is_linebreak c = (c \<in> set [NL, CHR 0x0D, CHR 0x0B, CHR 0x0C, CHR 0x1C, CHR 0x1D, CHR 0x1E, CHR 0x85])"

fun splitlines_acc :: "string \<Rightarrow> string \<Rightarrow> string list" where
  "splitlines_acc acc [] = (if acc = [] then [] else [rev acc])"
| "splitlines_acc acc (x # xs) =
     (if x = CHR 0x0D then
        (case xs of
           y # ys \<Rightarrow> if y = NL then rev acc # splitlines_acc [] ys
                     else rev acc # splitlines_acc [] xs
         | [] \<Rightarrow> [rev acc])
      else if is_linebreak x then rev acc # splitlines_acc [] xs
      else splitlines_acc (x # acc) xs)"

definition splitlines :: "string \<Rightarrow> string list" where
  "splitlines s = splitlines_acc [] s"

definition digit :: "nat \<Rightarrow> char" where
  "digit d = char_of (48 + d)"

fun str_nat :: "nat \<Rightarrow> string" where
  "str_nat n = (if n < 10 then [digit n] else str_nat (n div 10) @ [digit (n mod 10)])"

definition str_int :: "int \<Rightarrow> string" where
  "str_int i = (if i < 0 then CHR ''-'' # str_nat (nat (- i)) else str_nat (nat i))"

subsection \<open>Patterns and constants of the module\<close>

definition TEX :: string where "TEX = ''tex''"
definition LATEX :: string where "LATEX = ''latex''"
definition PDFLATEX :: string where "PDFLATEX = ''pdflatex''"

text \<open>\<^verbatim>\<open>(\~+\sRunning NAME.*\s\~+)\<close>, the shape of the six enable and disable patterns.\<close>

definition running_banner :: "string \<Rightarrow> rx" where
  "running_banner name =
     Group 1 (seqs [Plus (Lit CHR ''~''), Atom Space, Str (''Running '' @ name), Star Dot,
                    Atom Space, Plus (Lit CHR ''~'')])"

definition ENABLE_TEX :: rx where "ENABLE_TEX = running_banner ''tex''"
definition ENABLE_LATEX :: rx where "ENABLE_LATEX = running_banner ''latex''"
definition ENABLE_PDFLATEX :: rx where "ENABLE_PDFLATEX = running_banner ''pdflatex''"
definition DISABLE_HTEX :: rx where "DISABLE_HTEX = running_banner ''htex''"
definition DISABLE_HLATEX :: rx where "DISABLE_HLATEX = running_banner ''hlatex''"
definition DISABLE_HPDFLATEX :: rx where "DISABLE_HPDFLATEX = running_banner ''hpdflatex''"

definition RUN_ORDER :: "string list" where
  "RUN_ORDER = [''last'', ''first'', ''second'', ''third'', ''fourth'']"

text \<open>\<^verbatim>\<open>list.index\<close>, which raises \<^verbatim>\<open>ValueError\<close> when the element is absent.\<close>

fun index_of :: "'a list \<Rightarrow> 'a \<Rightarrow> error + nat" where
  "index_of [] y = Inl ValueError"
| "index_of (x # xs) y =
     (if x = y then Inr 0
      else (case index_of xs y of Inl e \<Rightarrow> Inl e | Inr i \<Rightarrow> Inr (Suc i)))"

text \<open>\<^verbatim>\<open>\~+\sRunning (.*) for the (.*) time\s\~+\<close>, compiled with
  \<^verbatim>\<open>re.IGNORECASE | re.MULTILINE\<close>; the pattern has no anchor, so only the first flag
  has an effect.\<close>

definition run_regex :: rx where
  "run_regex =
     seqs [Plus (Lit CHR ''~''), Atom Space, Str ''Running '', Group 1 (Star Dot),
           Str '' for the '', Group 2 (Star Dot), Str '' time'', Atom Space,
           Plus (Lit CHR ''~'')]"

text \<open>\<^verbatim>\<open>No log available.\<close>, searched without flags.\<close>

definition no_log_regex :: rx where
  "no_log_regex = Seq (Str ''No log available'') (Atom Dot)"

definition initialize_error_summary :: string where
  "initialize_error_summary =
     [NL] @ ''Summary of <span class='' @ [DQ] @ ''tex-fatal'' @ [DQ]
     @ ''>Critical Errors:</span>'' @ [NL, NL] @ ''<ul>'' @ [NL]"

definition finalize_error_summary :: "string \<Rightarrow> string" where
  "finalize_error_summary error_summary = error_summary @ ''</ul>'' @ [NL]"

text \<open>A filter is the triple \<^verbatim>\<open>[css class, regex, run spec]\<close> of the source. The
  regular expression is given as written in the list; the loop wraps it in group 1.\<close>

type_synonym markup_filter = "string \<times> rx \<times> string"

definition missfont_text :: rx where
  "missfont_text = seqs [Str ''missfont'', Atom Dot, Str ''log present'']"

definition four_passes_text :: rx where
  "four_passes_text = Str ''get arXiv to do 4 passes: Label(s) may have changed''"

definition fontspec_error_text :: rx where
  "fontspec_error_text =
     Str (''Fatal fontspec error: '' @ [DQ] @ ''cannot-use-pdftex'' @ [DQ])"

definition fontspec_requires_text :: rx where
  "fontspec_requires_text =
     Seq (Str ''The fontspec package requires either XeTeX or LuaTeX'') (Atom Dot)"

definition cannot_use_pdftex_text :: rx where
  "cannot_use_pdftex_text = Str ''{cannot-use-pdftex}''"

definition file_not_found_text :: rx where
  "file_not_found_text = seqs [Str ''file '', Group 2 (Star Dot), Str '' not found'']"

definition filters :: "markup_filter list" where
  "filters =
   [(''ignore'', four_passes_text, []),
    (''abort'', fontspec_error_text, []),
    (''abort'', fontspec_requires_text, []),
    (''abort'', cannot_use_pdftex_text, []),
    (''fatal'', Str ''*** AutoTeX ABORTING ***'', []),
    (''fatal'', seqs [Star Dot, Str ''AutoTeX returned error: missfont'', Atom Dot,
                      Str ''log present'', Atom Dot], []),
    (''fatal'', seqs [Str ''dvips: Font '', Star Dot,
                      Str '' not found; characters will be left blank'', Atom Dot], []),
    (''fatal'', seqs [Star Dot, Str ''missfont'', Atom Dot, Str ''log present'', Atom Dot], []),
    (''fatal'', seqs [Str ''Fatal '', Star Dot, Str '' error''], []),
    (''fatal'', Str ''fatal'', []),
    (''danger'', file_not_found_text, []),
    (''danger'', Str ''failed'', []),
    (''danger'', Str ''emergency stop'', []),
    (''danger'', Str ''not allowed'', []),
    (''danger'', Str ''does not exist'', []),
    (''danger'', seqs [Str ''Package rerunfilecheck Warning:'', Star Dot], ''last''),
    (''danger'', seqs [Star Dot, Str ''(rerunfilecheck)'', Star Dot], ''last''),
    (''danger'', Str ''rerun'', ''last''),
    (''warning'', seqs [Str ''Citation'', Star Dot, Str ''undefined''], ''last''),
    (''warning'', seqs [Str ''Reference'', Star Dot, Str ''undefined''], ''last''),
    (''warning'', seqs [Str ''No '', Star Dot, Str '' file''], []),
    (''warning'', Str ''warning'', ''second''),
    (''warning'', Str ''unsupported'', []),
    (''warning'', Str ''unable'', []),
    (''warning'', Str ''ignore'', []),
    (''warning'', Str ''undefined'', ''second''),
    (''info'', seqs [Plus (Lit CHR ''~''), Atom Space, Str ''Running'', Star Dot,
                     Atom Space, Plus (Lit CHR ''~'')], []),
    (''info'', Group 2 (Str ''*** Using TeX Live 2016 ***''), []),
    (''success'', Group 2 (Str ''Extracting files from archive:''), []),
    (''success'', Str ''Successfully created PDF file:'', []),
    (''success'', seqs [Str ''** AutoTeX job completed'', Atom Dot, Str '' **''], []),
    (''ignore'', seqs [Str ''Reference'', Star Dot, Str ''undefined''], ''first''),
    (''ignore'', seqs [Str ''Citation'', Star Dot, Str ''undefined''], ''first''),
    (''ignore'', Str ''warning'', ''first''),
    (''ignore'', Str ''undefined'', ''first'')]"

subsection \<open>Run discovery\<close>

text \<open>The values fixed before the line loop starts. \<open>last_run_for_engine\<close> is the
  dictionary, kept as an association list in insertion order, as \<^verbatim>\<open>dict.items()\<close>
  reads it.\<close>

record env =
  run_summary :: string
  last_run_for_engine :: "(string \<times> string) list"
  enable_markup :: "rx list"
  disable_markup :: "rx list"
  success_last_engine :: string
  success_last_run :: string
  submission_id :: int
  compilation_status :: string

definition run_summary_head :: string where
  "run_summary_head =
     ''If you are attempting to compile with a specific engine (PDFLaTeX, LaTeX, ''
     @ [NL] @ ''TeX) please carefully review the appropriate log below.'' @ [NL, NL]
     @ ''Summary of TeX runs:'' @ [NL, NL]"

definition initial_env :: "int \<Rightarrow> string \<Rightarrow> env" where
  "initial_env sid status =
     \<lparr>run_summary = run_summary_head, last_run_for_engine = [], enable_markup = [],
      disable_markup = [], success_last_engine = [], success_last_run = [],
      submission_id = sid, compilation_status = status\<rparr>"

text \<open>The body of \<^verbatim>\<open>for run in hits\<close>.\<close>

definition note_run :: "env \<Rightarrow> string \<times> string \<Rightarrow> env" where
  "note_run e hit =
     (case hit of (engine, run) \<Rightarrow>
        (let e = e\<lparr>run_summary := run_summary e @ [TAB] @ ''Running '' @ engine @ '' for ''
                                  @ run @ '' time.'' @ [NL],
                    success_last_engine := engine,
                    success_last_run := run,
                    last_run_for_engine := AList.update engine run (last_run_for_engine e)\<rparr>;
             e = (if engine = PDFLATEX
                  then e\<lparr>disable_markup := disable_markup e @ [DISABLE_HPDFLATEX],
                         enable_markup := enable_markup e @ [ENABLE_PDFLATEX]\<rparr> else e);
             e = (if engine = LATEX
                  then e\<lparr>disable_markup := disable_markup e @ [DISABLE_HLATEX],
                         enable_markup := enable_markup e @ [ENABLE_LATEX]\<rparr> else e);
             e = (if engine = TEX
                  then e\<lparr>disable_markup := disable_markup e @ [DISABLE_HTEX],
                         enable_markup := enable_markup e @ [ENABLE_TEX]\<rparr> else e)
         in e))"

definition last_run_lines :: "(string \<times> string) list \<Rightarrow> string" where
  "last_run_lines al =
     concat (map (\<lambda>(e, r). [TAB] @ ''Last run for engine '' @ e @ '' is '' @ r @ [NL]) al)"

definition hits :: "string \<Rightarrow> (string \<times> string) list" where
  "hits autotex_log = map (\<lambda>c. (group c 1, group c 2)) (findall True run_regex autotex_log)"

definition discover :: "string \<Rightarrow> int \<Rightarrow> string \<Rightarrow> env" where
  "discover autotex_log sid status =
     (let e = fold (\<lambda>hit e. note_run e hit) (hits autotex_log) (initial_env sid status);
          e = e\<lparr>run_summary := run_summary e @ [NL]\<rparr>
      in e\<lparr>run_summary := run_summary e @ last_run_lines (last_run_for_engine e)\<rparr>)"

subsection \<open>The state of the line loop\<close>

record state =
  new_log :: string
  current_engine :: string
  current_run :: string
  last_run :: bool
  error_summary :: string
  abort_markup :: bool
  xetex_luatex_abort :: bool
  emergency_stop :: bool
  missing_file :: bool
  missing_font_markup :: bool
  rerun_markup :: bool
  final_run_had_errors :: bool
  final_run_had_warnings :: bool
  markup_enabled :: bool

definition initial_state :: state where
  "initial_state =
     \<lparr>new_log = [], current_engine = [], current_run = [], last_run = False,
      error_summary = [], abort_markup = False, xetex_luatex_abort = False,
      emergency_stop = False, missing_file = False, missing_font_markup = False,
      rerun_markup = False, final_run_had_errors = False, final_run_had_warnings = False,
      markup_enabled = True\<rparr>"

text \<open>\<^verbatim>\<open>last_run_for_engine[engine]\<close>, which raises \<^verbatim>\<open>KeyError\<close> at a missing key.\<close>

definition lookup_last_run :: "env \<Rightarrow> string \<Rightarrow> error + string" where
  "lookup_last_run e engine =
     (case map_of (last_run_for_engine e) engine of
        None \<Rightarrow> Inl KeyError | Some r \<Rightarrow> Inr r)"

text \<open>\<^verbatim>\<open>if last_run_for_engine[current_engine] == current_run: last_run = True\<close>\<close>

definition mark_last_run :: "env \<Rightarrow> state \<Rightarrow> error + state" where
  "mark_last_run e st =
     (case lookup_last_run e (current_engine st) of
        Inl err \<Rightarrow> Inl err
      | Inr r \<Rightarrow> Inr (if r = current_run st then st\<lparr>last_run := True\<rparr> else st))"

text \<open>\<^verbatim>\<open>found = run_regex.search(line)\<close> followed by the two assignments from its
  groups, when there is a match.\<close>

definition set_current :: "state \<Rightarrow> string \<Rightarrow> state" where
  "set_current st line =
     (case search True run_regex line of
        None \<Rightarrow> st
      | Some (b, m, a, c) \<Rightarrow> st\<lparr>current_engine := group c 1, current_run := group c 2\<rparr>)"

text \<open>The loop over \<open>disable_markup\<close>: the first pattern found switches markup off.\<close>

definition disable_step :: "env \<Rightarrow> state \<Rightarrow> string \<Rightarrow> state" where
  "disable_step e st line =
     (if list_ex (\<lambda>regex. matches True regex line) (disable_markup e)
      then st\<lparr>markup_enabled := False\<rparr> else st)"

text \<open>The loop over \<open>enable_markup\<close>: its body runs for the first pattern found and
  then leaves the loop.\<close>

definition enable_step :: "env \<Rightarrow> state \<Rightarrow> string \<Rightarrow> error + state" where
  "enable_step e st line =
     (if list_ex (\<lambda>regex. matches True regex line) (enable_markup e)
      then (let st = set_current (st\<lparr>markup_enabled := True\<rparr>) line
            in if current_engine st \<noteq> [] \<and> current_run st \<noteq> []
               then mark_last_run e st else Inr st)
      else Inr st)"

text \<open>\<^verbatim>\<open>if re.search(run_regex, line): ...\<close>, for banners of any engine.\<close>

definition banner_step :: "env \<Rightarrow> state \<Rightarrow> string \<Rightarrow> error + state" where
  "banner_step e st line =
     (if matches True run_regex line then mark_last_run e (set_current st line) else Inr st)"

subsection \<open>The filter loop\<close>

text \<open>The condition under which a filter is passed over for the current run:
  \<^verbatim>\<open>run and current_run and (RUN_ORDER.index(run) > RUN_ORDER.index(current_run) or
  (run == 'last' and current_run != last_run_for_engine[current_engine]))\<close>,
  evaluated from left to right.\<close>

definition wrong_run :: "env \<Rightarrow> state \<Rightarrow> string \<Rightarrow> error + bool" where
  "wrong_run e st run =
     (if run = [] \<or> current_run st = [] then Inr False
      else (case index_of RUN_ORDER run of
              Inl err \<Rightarrow> Inl err
            | Inr i \<Rightarrow>
               (case index_of RUN_ORDER (current_run st) of
                  Inl err \<Rightarrow> Inl err
                | Inr j \<Rightarrow>
                   if i > j then Inr True
                   else if run = ''last'' then
                     (case lookup_last_run e (current_engine st) of
                        Inl err \<Rightarrow> Inl err
                      | Inr r \<Rightarrow> Inr (current_run st \<noteq> r))
                   else Inr False)))"

definition span :: "string \<Rightarrow> string \<Rightarrow> string" where
  "span level t = ''<span class='' @ [DQ] @ ''tex-'' @ level @ [DQ] @ ''>'' @ t @ ''</span>''"

text \<open>Every addition to the error summary opens the block when it is still empty and
  separates the entry from the one before otherwise.\<close>

definition add_entry :: "state \<Rightarrow> string \<Rightarrow> state" where
  "add_entry st entry =
     st\<lparr>error_summary :=
          (if error_summary st = [] then initialize_error_summary
           else error_summary st @ [NL]) @ entry\<rparr>"

definition help_span :: "string \<Rightarrow> string" where
  "help_span t = ''<span class='' @ [DQ] @ ''tex-help'' @ [DQ] @ ''>'' @ t @ ''</span>''"

definition xetex_entry :: "int \<Rightarrow> string" where
  "xetex_entry sid =
     [TAB] @ ''<li>At the current time arXiv does not support XeTeX/LuaTeX.'' @ [NL, NL]
     @ [TAB] @ ''If you believe that your submission requires a compilation method ''
     @ [NL, TAB] @ ''unsupported by arXiv, please contact '' @ help_span ''help@arxiv.org''
     @ '' for '' @ [NL, TAB] @ ''more information and provide us with this submit/''
     @ str_int sid @ '' identifier.</li>''"

definition missfont_entry :: "int \<Rightarrow> string" where
  "missfont_entry sid =
     [TAB] @ ''<li>A font required by your paper is not available. You may try to ''
     @ [NL, TAB] @ ''include a non-standard font or substitue an alternative font. ''
     @ [NL, TAB] @ ''See '' @ help_span (''<a href='' @ [DQ]
         @ ''https://arxiv.org/help/00README#fontmap'' @ [DQ] @ ''>Custom Fontmaps</a>'')
     @ ''. If this is due to a problem with '' @ [NL, TAB] @ ''our system, please contact ''
     @ help_span ''help@arxiv.org'' @ '' with details '' @ [NL, TAB]
     @ ''and provide us with this submission identifier: submit/'' @ str_int sid
     @ ''.</li>''"

definition rerun_entry :: string where
  "rerun_entry =
     [TAB] @ ''<li>Analysis of the compilation log indicates your submission ''
     @ [NL, TAB] @ ''may need an additional TeX run. Please add the following line ''
     @ [NL, TAB] @ ''to your source in order to force an additional TeX run:'' @ [NL, NL]
     @ [TAB] @ help_span ([BSL]
         @ ''typeout{get arXiv to do 4 passes: Label(s) may have changed. Rerun}'')
     @ [NL, NL, TAB] @ ''Add the above line just before ''
     @ help_span ([BSL] @ ''end{document}'') @ '' directive./li>''"

definition missing_file_entry :: "string \<Rightarrow> string" where
  "missing_file_entry line =
     ''<li>'' @ [TAB] @ ''A file required by your submission was not found.''
     @ [NL, TAB] @ line @ [NL, TAB] @ ''Please upload any missing files, or correct any ''
     @ ''file naming issues, and then reprocess your submission.</li>''"

definition emergency_stop_entry :: string where
  "emergency_stop_entry =
     [TAB] @ ''<li>We detected an emergency stop during one of the TeX compilation runs. ''
     @ ''Please review the compilation log to determie whether there is a serious issue ''
     @ ''with your submission source.</li>''"

text \<open>The statements that follow a successful substitution, in the order of the
  source. \<open>level\<close> is the class after \<^verbatim>\<open>abort\<close> has been renamed to \<^verbatim>\<open>fatal\<close>,
  \<open>actual_level\<close> the class as listed, \<open>line\<close> the line after the substitution.\<close>

definition note_final_run :: "env \<Rightarrow> string \<Rightarrow> state \<Rightarrow> state" where
  "note_final_run e level st =
     (if compilation_status e = ''succeeded''
         \<and> current_engine st = success_last_engine e
         \<and> current_run st = success_last_run e
      then (let st = (if level = ''warning'' then st\<lparr>final_run_had_warnings := True\<rparr> else st)
            in if level = ''danger'' \<or> level = ''fatal''
               then st\<lparr>final_run_had_errors := True\<rparr> else st)
      else st)"

definition note_abort :: "env \<Rightarrow> string \<Rightarrow> string \<Rightarrow> state \<Rightarrow> state" where
  "note_abort e actual_level line st =
     (if \<not> abort_markup st \<and> actual_level = ''abort''
         \<and> (matches False fontspec_error_text line
            \<or> matches False fontspec_requires_text line
            \<or> matches False cannot_use_pdftex_text line)
      then (add_entry st (xetex_entry (submission_id e)))
             \<lparr>xetex_luatex_abort := True, abort_markup := True\<rparr>
      else st)"

definition note_missfont :: "env \<Rightarrow> string \<Rightarrow> string \<Rightarrow> state \<Rightarrow> state" where
  "note_missfont e level line st =
     (if \<not> missing_font_markup st \<and> level = ''fatal'' \<and> matches False missfont_text line
      then (add_entry st (missfont_entry (submission_id e)))\<lparr>missing_font_markup := True\<rparr>
      else st)"

definition note_rerun :: "string \<Rightarrow> string \<Rightarrow> state \<Rightarrow> state" where
  "note_rerun level line st =
     (if \<not> rerun_markup st \<and> level = ''danger''
         \<and> matches False (Alt (Str ''rerunfilecheck'') (Str ''rerun'')) line
         \<and> \<not> matches False four_passes_text line
         \<and> \<not> matches False (Str ''oberdiek'') line
      then (add_entry st rerun_entry)\<lparr>final_run_had_warnings := True, rerun_markup := True\<rparr>
      else st)"

definition note_missing_file :: "string \<Rightarrow> string \<Rightarrow> state \<Rightarrow> state" where
  "note_missing_file level line st =
     (if \<not> missing_file st \<and> level = ''danger'' \<and> matches True file_not_found_text line
      then (add_entry st (missing_file_entry line))\<lparr>missing_file := True\<rparr>
      else st)"

definition note_emergency_stop :: "string \<Rightarrow> string \<Rightarrow> state \<Rightarrow> state" where
  "note_emergency_stop level line st =
     (if \<not> missing_file st \<and> \<not> emergency_stop st \<and> level = ''danger''
         \<and> matches True (Str ''emergency stop'') line
      then (add_entry st emergency_stop_entry)\<lparr>emergency_stop := True\<rparr>
      else st)"

definition on_match :: "env \<Rightarrow> string \<Rightarrow> string \<Rightarrow> string \<Rightarrow> state \<Rightarrow> state" where
  "on_match e actual_level level line st =
     note_emergency_stop level line
       (note_missing_file level line
          (note_rerun level line
             (note_missfont e level line
                (note_abort e actual_level line
                   (note_final_run e level st)))))"

text \<open>
  \<^verbatim>\<open>for level, filter, run in filters\<close>. The result is the state, the line as it
  leaves the loop, and the filter that matched, if one did: the loop is left at the
  first match, so at most one filter marks a line.
\<close>

fun filter_loop ::
  "env \<Rightarrow> state \<Rightarrow> string \<Rightarrow> markup_filter list
     \<Rightarrow> error + (state \<times> string \<times> markup_filter option)"
where
  "filter_loop e st line [] = Inr (st, line, None)"
| "filter_loop e st line ((level, pat, run0) # fs) =
     (if abort_markup st \<and> level \<notin> set [''fatal'', ''abort''] then filter_loop e st line fs
      else
        (let run = (if run0 = [] then ''first'' else run0) in
         case wrong_run e st run of
           Inl err \<Rightarrow> Inl err
         | Inr True \<Rightarrow> filter_loop e st line fs
         | Inr False \<Rightarrow>
             (let actual_level = level;
                  level = (if level = ''abort'' then ''fatal'' else level);
                  regex = Group 1 pat
              in if matches True regex line
                 then (let line = sub True regex (span level) line
                       in Inr (on_match e actual_level level line st, line,
                            Some (actual_level, pat, run0)))
                 else filter_loop e st line fs)))"

subsection \<open>The line loop and the report\<close>

text \<open>
  One iteration of \<^verbatim>\<open>for line in line_by_line\<close>. \<open>skip_markup\<close> is the empty list in
  the source, so its loop has no iteration. The second component is the filter that
  marked the line, if any.
\<close>

definition process_line ::
  "env \<Rightarrow> state \<Rightarrow> string \<Rightarrow> error + (state \<times> markup_filter option)" where
  "process_line e st raw =
     (let line = html_escape raw;
          st = disable_step e st line
      in case enable_step e st line of
           Inl err \<Rightarrow> Inl err
         | Inr st \<Rightarrow>
            (case banner_step e st line of
               Inl err \<Rightarrow> Inl err
             | Inr st \<Rightarrow>
                if \<not> markup_enabled st then Inr (st, None)
                else (case filter_loop e st line filters of
                        Inl err \<Rightarrow> Inl err
                      | Inr (st, line, fired) \<Rightarrow>
                          Inr (st\<lparr>new_log := new_log st @ line @ [NL]\<rparr>, fired))))"

fun scan :: "env \<Rightarrow> state \<Rightarrow> string list \<Rightarrow> error + state" where
  "scan e st [] = Inr st"
| "scan e st (l # ls) =
     (case process_line e st l of Inl err \<Rightarrow> Inl err | Inr (st', fired) \<Rightarrow> scan e st' ls)"

text \<open>The filters that matched during a scan, in order: for each line that a filter
  marked, the engine and the run current at that line, and the filter.\<close>

fun fired_events ::
  "env \<Rightarrow> state \<Rightarrow> string list \<Rightarrow> (string \<times> string \<times> markup_filter) list" where
  "fired_events e st [] = []"
| "fired_events e st (l # ls) =
     (case process_line e st l of
        Inl err \<Rightarrow> []
      | Inr (st', fired) \<Rightarrow>
          (case fired of None \<Rightarrow> [] | Some f \<Rightarrow> [(current_engine st', current_run st', f)])
          @ fired_events e st' ls)"

definition display_status :: "env \<Rightarrow> state \<Rightarrow> string \<times> string" where
  "display_status e st =
     (if compilation_status e = ''failed'' then
        (''fatal'', if xetex_luatex_abort st
                    then ''Failed: XeTeX/LuaTeX are not supported at current time.''
                    else ''Failed'')
      else if compilation_status e = ''succeeded'' then
        (if final_run_had_errors st \<and> \<not> final_run_had_warnings st then
           (''danger'', ''Succeeded with possible errors. '' @ [NL, TAB, TAB]
                        @ ''Be sure to carefully inspect log (see below).'')
         else if \<not> final_run_had_errors st \<and> final_run_had_warnings st then
           (''warning'', ''Succeeded with warnings. We recommend that you '' @ [NL, TAB, TAB]
                         @ ''inspect the log (see below).'')
         else if final_run_had_errors st \<and> final_run_had_warnings st then
           (''danger'', ''Succeeded with (possibly significant) errors and warnings. ''
                        @ [NL, TAB, TAB] @ ''Please be sure to carefully inspect log (see below).'')
         else (''success'', ''Succeeded!''))
      else (''warning'', ''Succeeded with warnings''))"

definition status_line :: "env \<Rightarrow> state \<Rightarrow> string" where
  "status_line e st =
     (case display_status e st of (status_class, msg) \<Rightarrow>
        [NL] @ ''Processing Status: <span class='' @ [DQ] @ ''tex-'' @ status_class @ [DQ]
        @ ''>'' @ msg @ ''</span>'' @ [NL, NL])"

definition key_summary :: string where
  "key_summary = []"

definition log_header :: string where
  "log_header = [NL, NL] @ ''<b>Marked Up Log:</b>'' @ [NL, NL]"

definition final_error_summary :: "state \<Rightarrow> string" where
  "final_error_summary st =
     (if error_summary st \<noteq> [] then finalize_error_summary (error_summary st)
      else error_summary st)"

definition report :: "env \<Rightarrow> state \<Rightarrow> string" where
  "report e st =
     run_summary e @ status_line e st @ final_error_summary st @ key_summary
     @ log_header @ new_log st"

definition compilation_log_display :: "string \<Rightarrow> int \<Rightarrow> string \<Rightarrow> error + string" where
  "compilation_log_display autotex_log sid status =
     (if matches False no_log_regex autotex_log then Inr autotex_log
      else (let e = discover autotex_log sid status
            in case scan e initial_state (splitlines autotex_log) of
                 Inl err \<Rightarrow> Inl err
               | Inr st \<Rightarrow> Inr (report e st)))"

subsection \<open>The language of a pattern\<close>

text \<open>The set of texts a pattern matches, used to state what \<open>search\<close> finds.\<close>

fun lang :: "bool \<Rightarrow> rx \<Rightarrow> string set" where
  "lang ic (Str p) = {s. list_all2 (\<lambda>c. cmatch ic (Lit c)) p s}"
| "lang ic (Atom a) = {s. \<exists>x. s = [x] \<and> cmatch ic a x}"
| "lang ic (Star a) = {s. list_all (cmatch ic a) s}"
| "lang ic (Plus a) = {s. s \<noteq> [] \<and> list_all (cmatch ic a) s}"
| "lang ic (Seq r1 r2) = {s. \<exists>u v. s = u @ v \<and> u \<in> lang ic r1 \<and> v \<in> lang ic r2}"
| "lang ic (Alt r1 r2) = lang ic r1 \<union> lang ic r2"
| "lang ic (Group n r) = lang ic r"

subsection \<open>Auxiliary notions for the proofs\<close>

text \<open>The three steps before the filter loop write only \<open>markup_enabled\<close>,
  \<open>current_engine\<close>, \<open>current_run\<close> and \<open>last_run\<close>.\<close>

definition same_report_fields :: "state \<Rightarrow> state \<Rightarrow> bool" where
  "same_report_fields st st' =
     (new_log st' = new_log st \<and> error_summary st' = error_summary st
      \<and> abort_markup st' = abort_markup st \<and> xetex_luatex_abort st' = xetex_luatex_abort st
      \<and> emergency_stop st' = emergency_stop st \<and> missing_file st' = missing_file st
      \<and> missing_font_markup st' = missing_font_markup st \<and> rerun_markup st' = rerun_markup st
      \<and> final_run_had_errors st' = final_run_had_errors st
      \<and> final_run_had_warnings st' = final_run_had_warnings st)"

text \<open>The state with which the filter loop is entered for a line.\<close>

definition before_filters :: "env \<Rightarrow> state \<Rightarrow> string \<Rightarrow> error + state" where
  "before_filters e st raw =
     (case enable_step e (disable_step e st (html_escape raw)) (html_escape raw) of
        Inl err \<Rightarrow> Inl err
      | Inr st1 \<Rightarrow> banner_step e st1 (html_escape raw))"




section \<open>Properties\<close>

subsection \<open>The matcher finds exactly the texts of the language\<close>

lemma str_match_Some:
  "str_match ic p s = Some s' \<Longrightarrow> \<exists>m. s = m @ s' \<and> list_all2 (\<lambda>c. cmatch ic (Lit c)) p m"
proof (induction ic p s rule: str_match.induct)
  case (1 ic s)
  then show ?case by simp
next
  case (2 ic c cs)
  then show ?case by simp
next
  case (3 ic c cs x xs)
  from "3.prems" have cm: "cmatch ic (Lit c) x" and rec: "str_match ic cs xs = Some s'"
    by (auto simp del: cmatch.simps split: if_splits)
  from "3.IH"[OF cm rec] obtain m where m: "xs = m @ s'" "list_all2 (\<lambda>c. cmatch ic (Lit c)) cs m"
    by blast
  have "x # xs = (x # m) @ s'" using m(1) by simp
  moreover have "list_all2 (\<lambda>c. cmatch ic (Lit c)) (c # cs) (x # m)"
    using cm m(2) by (simp del: cmatch.simps)
  ultimately show ?case by blast
qed

lemma str_match_complete:
  "list_all2 (\<lambda>c. cmatch ic (Lit c)) p m \<Longrightarrow> str_match ic p (m @ t) = Some t"
  by (induction p m rule: list_all2_induct) (simp_all del: cmatch.simps)

lemma ms_Star_sound:
  "(s', c) \<in> set (ms ic (Star a) s) \<Longrightarrow> \<exists>m. s = m @ s' \<and> list_all (cmatch ic a) m"
proof (induction s)
  case Nil
  then show ?case by simp
next
  case (Cons x xs)
  show ?case
  proof (cases "s' = x # xs")
    case True
    then show ?thesis by simp
  next
    case False
    with Cons.prems have cm: "cmatch ic a x" and "(s', c) \<in> set (ms ic (Star a) xs)"
      by (auto split: if_splits)
    with Cons.IH obtain m where "xs = m @ s'" "list_all (cmatch ic a) m" by blast
    with cm have "x # xs = (x # m) @ s' \<and> list_all (cmatch ic a) (x # m)" by simp
    then show ?thesis by blast
  qed
qed

lemma ms_Star_complete:
  "list_all (cmatch ic a) m \<Longrightarrow> (t, []) \<in> set (ms ic (Star a) (m @ t))"
proof (induction m)
  case Nil
  then show ?case by (cases t) auto
next
  case (Cons x m)
  then show ?case by auto
qed

lemma ms_sound:
  "(s', c) \<in> set (ms ic r s) \<Longrightarrow> \<exists>m. s = m @ s' \<and> m \<in> lang ic r"
proof (induction r arbitrary: s s' c)
  case (Str p)
  then obtain t where "str_match ic p s = Some t" "s' = t"
    by (cases "str_match ic p s") auto
  then show ?case using str_match_Some[of ic p s s'] by (simp del: cmatch.simps)
next
  case (Atom a)
  then show ?case by (cases s) (auto split: if_splits)
next
  case (Star a)
  then show ?case using ms_Star_sound by simp
next
  case (Plus a)
  show ?case
  proof (cases s)
    case Nil
    with Plus show ?thesis by simp
  next
    case (Cons x xs)
    with Plus have cm: "cmatch ic a x" and "(s', c) \<in> set (ms ic (Star a) xs)"
      by (auto split: if_splits)
    then obtain m where "xs = m @ s'" "list_all (cmatch ic a) m"
      using ms_Star_sound by blast
    with cm Cons have "s = (x # m) @ s' \<and> (x # m) \<in> lang ic (Plus a)" by simp
    then show ?thesis by blast
  qed
next
  case (Seq r1 r2)
  from Seq.prems obtain s1 c1 c2 where
    a: "(s1, c1) \<in> set (ms ic r1 s)" and b: "(s', c2) \<in> set (ms ic r2 s1)"
    by auto
  from Seq.IH(1)[OF a] obtain u where u: "s = u @ s1" "u \<in> lang ic r1" by blast
  from Seq.IH(2)[OF b] obtain v where v: "s1 = v @ s'" "v \<in> lang ic r2" by blast
  from u v have "s = (u @ v) @ s' \<and> (u @ v) \<in> lang ic (Seq r1 r2)" by auto
  then show ?case by blast
next
  case (Alt r1 r2)
  from Alt.prems have "(s', c) \<in> set (ms ic r1 s) \<or> (s', c) \<in> set (ms ic r2 s)" by simp
  then show ?case
  proof
    assume "(s', c) \<in> set (ms ic r1 s)"
    from Alt.IH(1)[OF this] show ?thesis by auto
  next
    assume "(s', c) \<in> set (ms ic r2 s)"
    from Alt.IH(2)[OF this] show ?thesis by auto
  qed
next
  case (Group n r)
  then obtain c' where "(s', c') \<in> set (ms ic r s)" by auto
  from Group.IH[OF this] show ?case by simp
qed

lemma ms_complete:
  "m \<in> lang ic r \<Longrightarrow> \<exists>c. (t, c) \<in> set (ms ic r (m @ t))"
proof (induction r arbitrary: m t)
  case (Str p)
  then have "str_match ic p (m @ t) = Some t" by (simp add: str_match_complete del: cmatch.simps)
  then show ?case by simp
next
  case (Atom a)
  then show ?case by auto
next
  case (Star a)
  then have "(t, []) \<in> set (ms ic (Star a) (m @ t))" by (simp add: ms_Star_complete)
  then show ?case by blast
next
  case (Plus a)
  then obtain x m' where m: "m = x # m'" "cmatch ic a x" "list_all (cmatch ic a) m'"
    by (cases m) auto
  then show ?case using ms_Star_complete[of ic a m' t] by auto
next
  case (Seq r1 r2)
  then obtain u v where uv: "m = u @ v" "u \<in> lang ic r1" "v \<in> lang ic r2" by auto
  from Seq.IH(1)[OF uv(2), of "v @ t"] obtain c1 where c1: "(v @ t, c1) \<in> set (ms ic r1 (u @ v @ t))"
    by blast
  from Seq.IH(2)[OF uv(3), of t] obtain c2 where c2: "(t, c2) \<in> set (ms ic r2 (v @ t))" by blast
  from c1 c2 uv(1) have "(t, c1 @ c2) \<in> set (ms ic (Seq r1 r2) (m @ t))"
    by force
  then show ?case by blast
next
  case (Alt r1 r2)
  then show ?case by fastforce
next
  case (Group n r)
  then obtain c where "(t, c) \<in> set (ms ic r (m @ t))" by fastforce
  then show ?case by force
qed

lemma search_None_iff:
  "search ic r s = None \<longleftrightarrow> (\<forall>t. suffix t s \<longrightarrow> ms ic r t = [])"
proof (induction s)
  case Nil
  then show ?case by (auto split: list.splits)
next
  case (Cons x xs)
  show ?case
  proof (cases "ms ic r (x # xs)")
    case Nil
    then show ?thesis using Cons.IH
      by (auto simp: suffix_Cons split: option.splits)
  next
    case (Cons p ps)
    then have "search ic r (x # xs) \<noteq> None" by (cases p) simp
    moreover have "\<not> (\<forall>t. suffix t (x # xs) \<longrightarrow> ms ic r t = [])"
      using Cons by (metis list.distinct(1) suffix_order.order_refl)
    ultimately show ?thesis by blast
  qed
qed

lemma search_Some:
  "search ic r s = Some (b, m, a, c) \<Longrightarrow>
     s = b @ m @ a \<and> ms ic r (m @ a) \<noteq> [] \<and> hd (ms ic r (m @ a)) = (a, c)
     \<and> (\<forall>t. suffix t s \<and> length t > length (m @ a) \<longrightarrow> ms ic r t = [])"
proof (induction s arbitrary: b)
  case Nil
  then obtain s' ps where ms: "ms ic r [] = (s', c) # ps" and eq: "b = []" "m = []" "a = []"
    by (auto split: list.splits)
  then have "(s', c) \<in> set (ms ic r [])" by simp
  from ms_sound[OF this] have "s' = []" by simp
  with ms eq show ?case by simp
next
  case (Cons x xs)
  show ?case
  proof (cases "ms ic r (x # xs)")
    case Nil
    with Cons.prems obtain b' where b': "search ic r xs = Some (b', m, a, c)" "b = x # b'"
      by (auto split: option.splits)
    from Cons.IH[OF b'(1)] Nil b'(2) show ?thesis
      by (auto simp: suffix_Cons)
  next
    case (Cons p ps)
    obtain s' c' where p: "p = (s', c')" by (cases p)
    with Cons Cons.prems have eq: "b = []" "m = take (length (x # xs) - length s') (x # xs)"
      "a = s'" "c = c'" by auto
    have "(s', c') \<in> set (ms ic r (x # xs))" using Cons p by simp
    from ms_sound[OF this] obtain m' where m': "x # xs = m' @ s'" by blast
    then have mm: "m = m'" using eq(2) by simp
    have len: "length (x # xs) = length (m @ a)" using m' mm eq(3) by simp
    have "\<forall>t. suffix t (x # xs) \<and> length t > length (m @ a) \<longrightarrow> ms ic r t = []"
    proof (intro allI impI)
      fix t assume "suffix t (x # xs) \<and> length t > length (m @ a)"
      then have "length t \<le> length (x # xs)" "length t > length (m @ a)"
        using suffix_length_le[of t "x # xs"] by auto
      with len show "ms ic r t = []" by simp
    qed
    moreover have "x # xs = b @ m @ a" using m' mm eq by simp
    moreover have "ms ic r (m @ a) \<noteq> [] \<and> hd (ms ic r (m @ a)) = (a, c)"
      using Cons p m' mm eq by simp
    ultimately show ?thesis by blast
  qed
qed

lemma matches_iff:
  "matches ic r s \<longleftrightarrow> (\<exists>b m a. s = b @ m @ a \<and> m \<in> lang ic r)"
proof
  assume "matches ic r s"
  then obtain t where t: "suffix t s" "ms ic r t \<noteq> []"
    unfolding matches_def search_None_iff by blast
  then obtain s' c where "(s', c) \<in> set (ms ic r t)" by (cases "ms ic r t") auto
  from ms_sound[OF this] obtain m where "t = m @ s'" "m \<in> lang ic r" by blast
  with t(1) show "\<exists>b m a. s = b @ m @ a \<and> m \<in> lang ic r"
    by (auto simp: suffix_def)
next
  assume "\<exists>b m a. s = b @ m @ a \<and> m \<in> lang ic r"
  then obtain b m a where s: "s = b @ m @ a" "m \<in> lang ic r" by blast
  from ms_complete[OF s(2), of a] have "ms ic r (m @ a) \<noteq> []" by auto
  moreover have "suffix (m @ a) s" using s(1) by (simp add: suffix_def)
  ultimately show "matches ic r s"
    unfolding matches_def search_None_iff by blast
qed

subsection \<open>Equations for evaluating character tests\<close>

lemma lower_code [code]:
  "lower (Char b0 b1 b2 b3 b4 b5 b6 b7) =
     (if \<not> b7 \<and> b6 \<and> \<not> b5 \<and> (b0 \<or> b1 \<or> b2 \<or> b3 \<or> b4)
         \<and> \<not> (b4 \<and> b3 \<and> (b2 \<or> (b1 \<and> b0)))
      then Char b0 b1 b2 b3 b4 True b6 b7 else Char b0 b1 b2 b3 b4 b5 b6 b7)"
  by (cases b0; cases b1; cases b2; cases b3; cases b4; cases b5; cases b6; cases b7;
      simp add: lower_def char_of_def bit_simps bit_0)

lemma is_space_code [code]:
  "is_space (Char b0 b1 b2 b3 b4 b5 b6 b7) =
     (Char b0 b1 b2 b3 b4 b5 b6 b7
        \<in> set [CHR 0x20, CHR 0x09, CHR 0x0A, CHR 0x0B, CHR 0x0C, CHR 0x0D,
                 CHR 0x1C, CHR 0x1D, CHR 0x1E, CHR 0x1F, CHR 0x85, CHR 0xA0])"
  by (cases b0; cases b1; cases b2; cases b3; cases b4; cases b5; cases b6; cases b7;
      simp add: is_space_def)

subsection \<open>C1: the call can raise\<close>

text \<open>
  Claim C1 says that \<^verbatim>\<open>compilation_log_display\<close> returns normally on every log. The
  code does not: a banner that announces a fifth run makes \<^verbatim>\<open>RUN_ORDER.index\<close> raise
  \<^verbatim>\<open>ValueError\<close> at the first filter tried on the banner line itself, and an engine
  name that \<^verbatim>\<open>html.escape\<close> changes is looked up, escaped, in a dictionary that
  holds the raw name, which raises \<^verbatim>\<open>KeyError\<close>. The theorem evaluates the code at
  one input of each kind.
\<close>

theorem C1_display_raises:
  "compilation_log_display ''~ Running latex for the fifth time ~'' 1 ''failed''
     = Inl ValueError
   \<and> compilation_log_display ''~ Running a&b for the first time ~'' 1 ''failed''
     = Inl KeyError"
  by code_simp

subsection \<open>C9: the sentinel text\<close>

lemma no_log_text_in_lang: "''No log available.'' \<in> lang False no_log_regex"
proof -
  have "''No log available'' \<in> lang False (Str ''No log available'')" by simp
  moreover have "''.'' \<in> lang False (Atom Dot)" by simp
  moreover have "''No log available.'' = ''No log available'' @ ''.''" by simp
  ultimately show ?thesis unfolding no_log_regex_def lang.simps by blast
qed

text \<open>
  Claim C9: every input that contains the literal text \<^verbatim>\<open>No log available.\<close> is
  returned unchanged. The pattern's final \<^verbatim>\<open>.\<close> matches the full stop, so the search
  at the head of the function succeeds on every such input.
\<close>

theorem C9_no_log_available_unchanged:
  "sublist ''No log available.'' autotex_log \<Longrightarrow>
     compilation_log_display autotex_log sid status = Inr autotex_log"
proof -
  assume "sublist ''No log available.'' autotex_log"
  then obtain ps ss where "autotex_log = ps @ ''No log available.'' @ ss"
    unfolding sublist_def by blast
  with no_log_text_in_lang have "matches False no_log_regex autotex_log"
    unfolding matches_iff by blast
  then show ?thesis by (simp add: compilation_log_display_def)
qed

theorem C9_witness:
  "sublist ''No log available.'' ''TeX: No log available. <retry>''
   \<and> compilation_log_display ''TeX: No log available. <retry>'' 7 ''failed''
       = Inr ''TeX: No log available. <retry>''"
proof -
  have h: "sublist ''No log available.'' (''TeX: '' @ ''No log available.'' @ '' <retry>'')"
    by (rule sublist_appendI)
  then have h': "sublist ''No log available.'' ''TeX: No log available. <retry>''" by simp
  from C9_no_log_available_unchanged[OF h'] h' show ?thesis by simp
qed

subsection \<open>What one iteration can change\<close>

lemma mark_last_run_cases:
  "mark_last_run e st = Inr st' \<Longrightarrow>
     (st' = st \<or> st' = st\<lparr>last_run := True\<rparr>)
     \<and> map_of (last_run_for_engine e) (current_engine st) \<noteq> None"
  by (auto simp: mark_last_run_def lookup_last_run_def split: sum.splits option.splits if_splits)

lemma set_current_cases:
  "set_current st line = st
   \<or> (\<exists>b m a c. search True run_regex line = Some (b, m, a, c)
         \<and> set_current st line = st\<lparr>current_engine := group c 1, current_run := group c 2\<rparr>)"
  by (auto simp: set_current_def split: option.splits)

lemma same_report_fields_refl [simp]: "same_report_fields st st"
  by (simp add: same_report_fields_def)

lemma same_report_fields_trans:
  "same_report_fields a b \<Longrightarrow> same_report_fields b c \<Longrightarrow> same_report_fields a c"
  by (simp add: same_report_fields_def)

lemma disable_step_fields: "same_report_fields st (disable_step e st line)"
  by (simp add: disable_step_def same_report_fields_def)

lemma set_current_fields: "same_report_fields st (set_current st line)"
  by (auto simp: set_current_def same_report_fields_def split: option.splits)

lemma mark_last_run_fields: "mark_last_run e st = Inr st' \<Longrightarrow> same_report_fields st st'"
  by (auto dest!: mark_last_run_cases simp: same_report_fields_def)

lemma enable_step_fields: "enable_step e st line = Inr st' \<Longrightarrow> same_report_fields st st'"
proof -
  assume a: "enable_step e st line = Inr st'"
  have b: "same_report_fields st (set_current (st\<lparr>markup_enabled := True\<rparr>) line)"
    using set_current_fields[of "st\<lparr>markup_enabled := True\<rparr>" line]
    by (simp add: same_report_fields_def)
  from a show ?thesis
    unfolding enable_step_def Let_def
    using b by (auto split: if_splits dest!: mark_last_run_fields intro: same_report_fields_trans)
qed

lemma banner_step_fields: "banner_step e st line = Inr st' \<Longrightarrow> same_report_fields st st'"
  unfolding banner_step_def
  using set_current_fields[of st line]
  by (auto split: if_splits dest!: mark_last_run_fields intro: same_report_fields_trans)

lemma before_filters_fields:
  "before_filters e st raw = Inr st' \<Longrightarrow> same_report_fields st st'"
  unfolding before_filters_def
  by (auto split: sum.splits dest!: enable_step_fields banner_step_fields
           intro: same_report_fields_trans[OF disable_step_fields] same_report_fields_trans)




lemma add_entry_control [simp]:
  "current_engine (add_entry st x) = current_engine st"
  "current_run (add_entry st x) = current_run st"
  "last_run (add_entry st x) = last_run st"
  "markup_enabled (add_entry st x) = markup_enabled st"
  "new_log (add_entry st x) = new_log st"
  by (simp_all add: add_entry_def)

lemma note_final_run_control [simp]:
  "current_engine (note_final_run e l st) = current_engine st"
  "current_run (note_final_run e l st) = current_run st"
  "last_run (note_final_run e l st) = last_run st"
  "markup_enabled (note_final_run e l st) = markup_enabled st"
  "new_log (note_final_run e l st) = new_log st"
  by (simp_all add: note_final_run_def Let_def)

lemma note_abort_control [simp]:
  "current_engine (note_abort e al line st) = current_engine st"
  "current_run (note_abort e al line st) = current_run st"
  "last_run (note_abort e al line st) = last_run st"
  "markup_enabled (note_abort e al line st) = markup_enabled st"
  "new_log (note_abort e al line st) = new_log st"
  by (simp_all add: note_abort_def)

lemma note_missfont_control [simp]:
  "current_engine (note_missfont e l line st) = current_engine st"
  "current_run (note_missfont e l line st) = current_run st"
  "last_run (note_missfont e l line st) = last_run st"
  "markup_enabled (note_missfont e l line st) = markup_enabled st"
  "new_log (note_missfont e l line st) = new_log st"
  by (simp_all add: note_missfont_def)

lemma note_rerun_control [simp]:
  "current_engine (note_rerun l line st) = current_engine st"
  "current_run (note_rerun l line st) = current_run st"
  "last_run (note_rerun l line st) = last_run st"
  "markup_enabled (note_rerun l line st) = markup_enabled st"
  "new_log (note_rerun l line st) = new_log st"
  by (simp_all add: note_rerun_def)

lemma note_missing_file_control [simp]:
  "current_engine (note_missing_file l line st) = current_engine st"
  "current_run (note_missing_file l line st) = current_run st"
  "last_run (note_missing_file l line st) = last_run st"
  "markup_enabled (note_missing_file l line st) = markup_enabled st"
  "new_log (note_missing_file l line st) = new_log st"
  by (simp_all add: note_missing_file_def)

lemma note_emergency_stop_control [simp]:
  "current_engine (note_emergency_stop l line st) = current_engine st"
  "current_run (note_emergency_stop l line st) = current_run st"
  "last_run (note_emergency_stop l line st) = last_run st"
  "markup_enabled (note_emergency_stop l line st) = markup_enabled st"
  "new_log (note_emergency_stop l line st) = new_log st"
  by (simp_all add: note_emergency_stop_def)

lemma on_match_control [simp]:
  "current_engine (on_match e al l line st) = current_engine st"
  "current_run (on_match e al l line st) = current_run st"
  "last_run (on_match e al l line st) = last_run st"
  "markup_enabled (on_match e al l line st) = markup_enabled st"
  "new_log (on_match e al l line st) = new_log st"
  by (simp_all add: on_match_def)

lemma wrong_run_last_run [simp]: "wrong_run e (st\<lparr>last_run := b\<rparr>) run = wrong_run e st run"
  by (simp add: wrong_run_def cong: sum.case_cong if_cong)











end
